theory Spec2Isabelle
  imports Complex_Main
begin

section \<open>Data model\<close>

text \<open>
  The program is one Python file, \<^verbatim>\<open>archive/mitremappingv3.py\<close>. A worker function
  \<^verbatim>\<open>find_similar_techniques\<close> encodes a sentence, fetches the technique corpus, scores
  and ranks it, and posts a formatted text on a queue; the GUI callbacks \<^verbatim>\<open>on_submit\<close>,
  \<^verbatim>\<open>update_progress\<close> and \<^verbatim>\<open>check_queue\<close> run on the main loop.

  Python strings are lists of characters with code points below 256. The text of a
  raised exception (what \<^verbatim>\<open>{e}\<close> renders inside an f-string) stands for the exception.
  A similarity is the exact value of the float that \<^verbatim>\<open>.item()\<close> returns, a rational
  number; NaN, the infinities and the negative zero are outside this model.
\<close>

type_synonym exn = string

text \<open>A Python value that is \<^verbatim>\<open>None\<close> or a value of the expected type.\<close>

datatype 'a or_none = PyNone | Val 'a

text \<open>
  A record of the corpus provider is a dict read only with \<^verbatim>\<open>.get(key, default)\<close>.
  Each of its four keys is absent, present with \<^verbatim>\<open>None\<close>, or present with a value;
  the provider fills a key it has no data for with \<^verbatim>\<open>None\<close>. The field \<open>tactic'\<close>
  is the key \<^verbatim>\<open>'tactic'\<close>.
\<close>

record raw_technique =
  technique_id :: "string or_none option"
  technique :: "string or_none option"
  technique_description :: "string or_none option"
  tactic' :: "string list or_none option"

text \<open>
  One entry of \<^verbatim>\<open>technique_details\<close>: the dict with the keys \<^verbatim>\<open>'id'\<close>, \<^verbatim>\<open>'name'\<close>,
  \<^verbatim>\<open>'description'\<close> and \<^verbatim>\<open>'tactic'\<close> (here \<open>id'\<close>, \<open>name\<close>, \<open>description\<close>,
  \<open>tactic_str\<close>). The first three hold whatever \<^verbatim>\<open>.get\<close> returned, the last the
  joined string. An entry of \<^verbatim>\<open>top_matches\<close> is that dict extended with the key
  \<^verbatim>\<open>'similarity'\<close>.
\<close>

record technique_detail =
  id' :: "string or_none"
  name :: "string or_none"
  description :: "string or_none"
  tactic_str :: string

record top_match = technique_detail +
  similarity :: rat

section \<open>Python library functions used by the program\<close>

text \<open>\<^verbatim>\<open>dict.get(key, default)\<close> on a key that is present or missing.\<close>

definition get :: "'a option \<Rightarrow> 'a \<Rightarrow> 'a" where
  "get v d = (case v of None \<Rightarrow> d | Some x \<Rightarrow> x)"

text \<open>\<^verbatim>\<open>sep.join(xs)\<close>: the separator stands between consecutive elements only.\<close>

fun join :: "string \<Rightarrow> string list \<Rightarrow> string" where
  "join sep [] = []"
| "join sep [x] = x"
| "join sep (x # y # ys) = x @ sep @ join sep (y # ys)"

text \<open>
  What an f-string renders for a value that may be \<^verbatim>\<open>None\<close>, and \<^verbatim>\<open>sep.join(x)\<close>
  on such a value: joining \<^verbatim>\<open>None\<close> raises a \<^verbatim>\<open>TypeError\<close>.
\<close>

definition str_of :: "string or_none \<Rightarrow> string" where
  "str_of v = (case v of PyNone \<Rightarrow> ''None'' | Val s \<Rightarrow> s)"

definition join_value :: "string \<Rightarrow> string list or_none \<Rightarrow> exn + string" where
  "join_value sep v =
     (case v of PyNone \<Rightarrow> Inl ''can only join an iterable'' | Val xs \<Rightarrow> Inr (join sep xs))"

text \<open>
  \<^verbatim>\<open>str.isspace\<close> on one character below code point 256: the ASCII white space
  (9 to 13 and 32), the separators 28 to 31, NEL (133) and the no-break space (160).
  \<^verbatim>\<open>str.strip()\<close> removes such characters from both ends.
\<close>

definition isspace :: "char \<Rightarrow> bool" where
  "isspace c = (let n = (of_char c :: nat) in (9 \<le> n \<and> n \<le> 13) \<or> (28 \<le> n \<and> n \<le> 32) \<or> n = 133 \<or> n = 160)"

definition strip :: "string \<Rightarrow> string" where
  "strip s = rev (dropWhile isspace (rev (dropWhile isspace s)))"

text \<open>
  The format specification \<^verbatim>\<open>:.4f\<close>: the value rounded to four decimals, a tie going
  to the even neighbour, written with a minus sign when the value is negative, the
  integer part in decimal, a point, and four digits.
\<close>

definition digit_char :: "nat \<Rightarrow> char" where
  "digit_char d = char_of (48 + d)"

function show_nat :: "nat \<Rightarrow> string" where
  "show_nat n = (if n < 10 then [digit_char n] else show_nat (n div 10) @ [digit_char (n mod 10)])"
  by pat_completeness auto
termination
  by (relation "measure (\<lambda>n. n)") auto

declare show_nat.simps [simp del]

definition round_half_even :: "rat \<Rightarrow> int" where
  "round_half_even x =
     (let f = \<lfloor>x\<rfloor>; d = x - of_int f
      in if d < 1 / 2 then f else if 1 / 2 < d then f + 1 else if even f then f else f + 1)"

definition zero_pad :: "nat \<Rightarrow> string \<Rightarrow> string" where
  "zero_pad w s = replicate (w - length s) (CHR ''0'') @ s"

definition format_4f :: "rat \<Rightarrow> string" where
  "format_4f x =
     (let n = nat (round_half_even (\<bar>x\<bar> * 10000))
      in (if x < 0 then ''-'' else '''') @ show_nat (n div 10000) @ ''.'' @ zero_pad 4 (show_nat (n mod 10000)))"

section \<open>The worker: find_similar_techniques\<close>

text \<open>
  The external collaborators are parameters: the two uses of \<^verbatim>\<open>model.encode\<close> (one
  sentence, a list of descriptions), \<^verbatim>\<open>lift.get_techniques\<close>,
  \<^verbatim>\<open>util.pytorch_cos_sim\<close> (a matrix with one row per query) and \<^verbatim>\<open>np.argsort\<close>.
  Each of the first four returns a value or raises.
\<close>

record 'v env =
  encode :: "string \<Rightarrow> exn + 'v"
  encode_batch :: "string or_none list \<Rightarrow> exn + 'v list"
  get_techniques :: "exn + raw_technique list"
  pytorch_cos_sim :: "'v \<Rightarrow> 'v list \<Rightarrow> exn + rat list list"
  argsort :: "rat list \<Rightarrow> nat list"

text \<open>
  What the worker does to the outside, in order: the calls of the two providers, the
  invocations of \<^verbatim>\<open>progress_callback\<close>, the error dialogs and \<^verbatim>\<open>result_queue.put\<close>.
  The worker returns, or an exception leaves it.
\<close>

datatype event =
    Encode string
  | GetTechniques
  | EncodeBatch "string or_none list"
  | Progress nat
  | ShowError string string
  | Put string

datatype outcome = Returned | Raised exn

text \<open>
  Lines 58 to 65: one detail per raw record. The default of \<^verbatim>\<open>.get\<close> stands in for
  an absent key only; a key present with \<^verbatim>\<open>None\<close> gives \<^verbatim>\<open>None\<close>, and for the key
  \<^verbatim>\<open>'tactic'\<close> the join then raises. The loop stops at the first record that raises.
\<close>

definition technique_detail_of :: "raw_technique \<Rightarrow> exn + technique_detail" where
  "technique_detail_of t =
     (case join_value '', '' (get (tactic' t) (Val [])) of
        Inl e \<Rightarrow> Inl e
      | Inr joined \<Rightarrow>
          Inr \<lparr> id' = get (technique_id t) (Val ''No ID''),
                name = get (technique t) (Val ''No Name''),
                description = get (technique_description t) (Val ''No Description''),
                tactic_str = joined \<rparr>)"

fun technique_details_of :: "raw_technique list \<Rightarrow> exn + technique_detail list" where
  "technique_details_of [] = Inr []"
| "technique_details_of (t # ts) =
     (case technique_detail_of t of
        Inl e \<Rightarrow> Inl e
      | Inr d \<Rightarrow>
          (case technique_details_of ts of
             Inl e \<Rightarrow> Inl e
           | Inr ds \<Rightarrow> Inr (d # ds)))"

text \<open>
  Line 71: \<^verbatim>\<open>np.argsort(-similarities[0])[:3]\<close>. Line 72: each index reads
  \<^verbatim>\<open>technique_details\<close> and the row; an index out of range raises.
\<close>

definition top_matches_indices :: "(rat list \<Rightarrow> nat list) \<Rightarrow> rat list \<Rightarrow> nat list" where
  "top_matches_indices sort_indices row = take 3 (sort_indices (map uminus row))"

definition scored :: "technique_detail \<Rightarrow> rat \<Rightarrow> top_match" where
  "scored d s = \<lparr> id' = id' d, name = name d, description = description d,
                  tactic_str = tactic_str d, similarity = s \<rparr>"

fun lookup_matches :: "technique_detail list \<Rightarrow> rat list \<Rightarrow> nat list \<Rightarrow> exn + top_match list" where
  "lookup_matches ds row [] = Inr []"
| "lookup_matches ds row (i # is) =
     (if i < length ds \<and> i < length row
      then (case lookup_matches ds row is of
              Inl e \<Rightarrow> Inl e
            | Inr ms \<Rightarrow> Inr (scored (ds ! i) (row ! i) # ms))
      else Inl ''index out of range'')"

definition top_matches :: "(rat list \<Rightarrow> nat list) \<Rightarrow> technique_detail list \<Rightarrow> rat list \<Rightarrow> exn + top_match list" where
  "top_matches sort_indices technique_details row =
     lookup_matches technique_details row (top_matches_indices sort_indices row)"

text \<open>
  Lines 67 to 72, the ranking of the candidates against the query: the descriptions
  are encoded, the similarities computed, the first row sorted and its first three
  indices looked up. Whatever a library raises on the way is the result.
\<close>

definition rank :: "'v env \<Rightarrow> 'v \<Rightarrow> technique_detail list \<Rightarrow> exn + top_match list" where
  "rank env sentence_embedding technique_details =
     (case encode_batch env (map description technique_details) of
        Inl e \<Rightarrow> Inl e
      | Inr descriptions_embeddings \<Rightarrow>
     (case pytorch_cos_sim env sentence_embedding descriptions_embeddings of
        Inl e \<Rightarrow> Inl e
      | Inr similarities \<Rightarrow>
     (case similarities of
        [] \<Rightarrow> Inl ''index out of range''
      | row # _ \<Rightarrow> top_matches (argsort env) technique_details row)))"

text \<open>Line 75: one block per match, the blocks joined by two newlines.\<close>

definition format_match :: "top_match \<Rightarrow> string" where
  "format_match m =
     ''ID: '' @ str_of (id' m) @ ''\<newline>Name: '' @ str_of (name m) @
     ''\<newline>Tactic: '' @ tactic_str m @
     ''\<newline>Similarity: '' @ format_4f (similarity m)"

definition result_text_of :: "top_match list \<Rightarrow> string" where
  "result_text_of ms = join ''\<newline>\<newline>'' (map format_match ms)"

text \<open>
  Lines 57 to 77, after both \<^verbatim>\<open>try\<close> blocks: nothing is caught here, so an exception
  of the loop over the records, of the ranking or of the last callback leaves the
  worker. The descriptions are handed to the encoder once the loop is through.
\<close>

definition rank_and_post :: "'v env \<Rightarrow> (nat \<Rightarrow> exn option) \<Rightarrow> 'v \<Rightarrow> raw_technique list \<Rightarrow> event list \<times> outcome" where
  "rank_and_post env progress_callback sentence_embedding techniques =
     (case technique_details_of techniques of
        Inl e \<Rightarrow> ([], Raised e)
      | Inr technique_details \<Rightarrow>
     (case rank env sentence_embedding technique_details of
        Inl e \<Rightarrow> ([EncodeBatch (map description technique_details)], Raised e)
      | Inr ms \<Rightarrow>
          ([EncodeBatch (map description technique_details), Put (result_text_of ms), Progress 100],
           (case progress_callback 100 of None \<Rightarrow> Returned | Some e \<Rightarrow> Raised e))))"

text \<open>
  Lines 43 to 55: each \<^verbatim>\<open>try\<close> block holds a provider call and the callback after it;
  whatever either raises is shown in an error dialog and the worker returns.
\<close>

definition find_similar_techniques :: "'v env \<Rightarrow> string \<Rightarrow> (nat \<Rightarrow> exn option) \<Rightarrow> event list \<times> outcome" where
  "find_similar_techniques env sentence progress_callback =
     (case encode env sentence of
        Inl e \<Rightarrow> ([Encode sentence, ShowError ''Error'' (''Error encoding sentence: '' @ e)], Returned)
      | Inr sentence_embedding \<Rightarrow>
     (case progress_callback 20 of
        Some e \<Rightarrow>
          ([Encode sentence, Progress 20,
            ShowError ''Error'' (''Error encoding sentence: '' @ e)], Returned)
      | None \<Rightarrow>
     (case get_techniques env of
        Inl e \<Rightarrow>
          ([Encode sentence, Progress 20, GetTechniques,
            ShowError ''Error'' (''Error fetching techniques from MITRE ATT&CK database: '' @ e)], Returned)
      | Inr techniques \<Rightarrow>
     (case progress_callback 50 of
        Some e \<Rightarrow>
          ([Encode sentence, Progress 20, GetTechniques, Progress 50,
            ShowError ''Error'' (''Error fetching techniques from MITRE ATT&CK database: '' @ e)], Returned)
      | None \<Rightarrow>
          (let (evs, out) = rank_and_post env progress_callback sentence_embedding techniques
           in ([Encode sentence, Progress 20, GetTechniques, Progress 50] @ evs, out))))))"

text \<open>What a run of the worker shows: the values given to the callback and the texts put.\<close>

fun progress_values :: "event list \<Rightarrow> nat list" where
  "progress_values [] = []"
| "progress_values (Progress v # evs) = v # progress_values evs"
| "progress_values (_ # evs) = progress_values evs"

fun puts :: "event list \<Rightarrow> string list" where
  "puts [] = []"
| "puts (Put r # evs) = r # puts evs"
| "puts (_ # evs) = puts evs"

fun is_show_error :: "event \<Rightarrow> bool" where
  "is_show_error (ShowError _ _) = True"
| "is_show_error _ = False"

text \<open>
  A run is completed when the worker returned from its last line: it returned, and
  not through one of the two \<^verbatim>\<open>except\<close> branches, which are the only places that open
  an error dialog.
\<close>

definition completed :: "event list \<times> outcome \<Rightarrow> bool" where
  "completed r \<longleftrightarrow> snd r = Returned \<and> \<not> list_ex is_show_error (fst r)"

text \<open>
  What \<^verbatim>\<open>np.argsort\<close> promises of its result on the keys \<open>ks\<close>: a permutation of the
  indices of \<open>ks\<close> along which the keys ascend. The order of equal keys is not part of it.
\<close>

definition argsort_ok :: "(rat list \<Rightarrow> nat list) \<Rightarrow> rat list \<Rightarrow> bool" where
  "argsort_ok sort_indices ks \<longleftrightarrow>
     length (sort_indices ks) = length ks \<and>
     distinct (sort_indices ks) \<and>
     list_all (\<lambda>i. i < length ks) (sort_indices ks) \<and>
     sorted (map (\<lambda>i. ks ! i) (sort_indices ks))"

text \<open>
  The words of the interface description for the similarity line: an optional minus
  sign, one or more digits, a point, four digits.
\<close>

definition is_digit :: "char \<Rightarrow> bool" where
  "is_digit c \<longleftrightarrow> 48 \<le> (of_char c :: nat) \<and> (of_char c :: nat) \<le> 57"

definition fixed_point_4 :: "string \<Rightarrow> bool" where
  "fixed_point_4 s =
     (let t = (if take 1 s = ''-'' then drop 1 s else s);
          ip = take (length t - 5) t;
          rest = drop (length t - 5) t
      in 5 < length t \<and> list_all is_digit ip \<and> take 1 rest = ''.'' \<and> list_all is_digit (drop 1 rest))"

section \<open>The GUI callbacks\<close>

text \<open>
  The state the callbacks read and write: the contents of the input widget
  \<^verbatim>\<open>entry_sentence\<close>, \<^verbatim>\<open>progress_bar['value']\<close>, the contents of the display
  \<^verbatim>\<open>result_text\<close>, the queue \<^verbatim>\<open>result_queue\<close> (first in, first out), the sentences for
  which a background thread was started, and the dialogs opened so far.
\<close>

record gui =
  entry_sentence :: string
  progress_bar :: nat
  result_text :: string
  result_queue :: "string list"
  threads :: "string list"
  showinfo :: "(string \<times> string) list"
  showerror :: "(string \<times> string) list"

definition update_progress :: "nat \<Rightarrow> gui \<Rightarrow> gui" where
  "update_progress v g = g\<lparr>progress_bar := v\<rparr>"

definition on_submit :: "gui \<Rightarrow> gui" where
  "on_submit g =
     (let sentence = entry_sentence g
      in if strip sentence = []
         then g\<lparr>showinfo := showinfo g @ [(''Info'', ''Please enter a sentence.'')]\<rparr>
         else g\<lparr>progress_bar := 0, result_text := [], threads := threads g @ [sentence]\<rparr>)"

text \<open>
  \<^verbatim>\<open>check_queue\<close>: \<^verbatim>\<open>get_nowait\<close> takes the oldest result or raises \<^verbatim>\<open>Empty\<close>, which
  is passed over; a result taken is inserted at the end of the display.
\<close>

definition check_queue :: "gui \<Rightarrow> gui" where
  "check_queue g =
     (case result_queue g of
        [] \<Rightarrow> g
      | result # rest \<Rightarrow> g\<lparr>result_queue := rest, result_text := result_text g @ result\<rparr>)"

text \<open>
  The effect of one event of a worker on the state: the callback passed by
  \<^verbatim>\<open>on_submit\<close> is \<^verbatim>\<open>update_progress\<close>, and a put appends to the queue.
\<close>

fun worker_effect :: "event \<Rightarrow> gui \<Rightarrow> gui" where
  "worker_effect (Progress v) g = update_progress v g"
| "worker_effect (Put r) g = g\<lparr>result_queue := result_queue g @ [r]\<rparr>"
| "worker_effect (ShowError t m) g = g\<lparr>showerror := showerror g @ [(t, m)]\<rparr>"
| "worker_effect _ g = g"

text \<open>
  A schedule is a sequence of steps, each atomic: the user replaces the input text,
  the user presses Submit, the timer runs \<^verbatim>\<open>check_queue\<close>, or a worker performs its next
  event.
\<close>

datatype action = Type string | Submit | CheckQueue | Worker event

fun step :: "action \<Rightarrow> gui \<Rightarrow> gui" where
  "step (Type s) g = g\<lparr>entry_sentence := s\<rparr>"
| "step Submit g = on_submit g"
| "step CheckQueue g = check_queue g"
| "step (Worker ev) g = worker_effect ev g"

fun run :: "action list \<Rightarrow> gui \<Rightarrow> gui" where
  "run [] g = g"
| "run (a # as) g = run as (step a g)"

fun worker_puts :: "action list \<Rightarrow> string list" where
  "worker_puts [] = []"
| "worker_puts (Worker (Put r) # as) = r # worker_puts as"
| "worker_puts (_ # as) = worker_puts as"

section \<open>The cosine similarity of the specification\<close>

text \<open>
  Modelled from the spec: the sum of the products of the components, \<open>dot(a, b)\<close> of
  section 4.1. The program computes its similarities with \<^verbatim>\<open>util.pytorch_cos_sim\<close> of
  the sentence-transformers library, which is not under \<^verbatim>\<open>src/\<close>. Components are real
  numbers here.
\<close>

definition dot :: "real list \<Rightarrow> real list \<Rightarrow> real" where
  "dot a b = sum_list (map (\<lambda>(x, y). x * y) (zip a b))"

text \<open>Modelled from the spec: the norm of a vector, the root of its product with itself.\<close>

definition vector_norm :: "real list \<Rightarrow> real" where
  "vector_norm a = sqrt (dot a a)"

text \<open>Modelled from the spec: a division, which fails on the divisor zero.\<close>

definition divide_checked :: "real \<Rightarrow> real \<Rightarrow> exn + real" where
  "divide_checked x y = (if y = 0 then Inl ''division by zero'' else Inr (x / y))"

text \<open>
  Modelled from the spec: \<open>sim = dot(a, b) / (\<parallel>a\<parallel> \<cdot> \<parallel>b\<parallel>)\<close>, and similarity 0.0 by
  convention, not an error, when either vector has norm zero (section 4.1); the
  function of the program that computes it, \<^verbatim>\<open>util.pytorch_cos_sim\<close>, is missing
  from \<^verbatim>\<open>src/\<close>.
\<close>

definition cosine_similarity :: "real list \<Rightarrow> real list \<Rightarrow> exn + real" where
  "cosine_similarity a b =
     (if vector_norm a = 0 \<or> vector_norm b = 0 then Inr 0
      else divide_checked (dot a b) (vector_norm a * vector_norm b))"

section \<open>Example inputs\<close>

text \<open>
  An argsort by insertion, a corpus of four records and providers that answer from
  fixed tables; they instantiate the parameters in the examples below. An embedding is
  the text itself. As the library does, the similarity of the example refuses an empty
  batch of candidates: the product of a \<open>1 \<times> d\<close> and a \<open>0 \<times> 1\<close> matrix is not defined.
\<close>

definition argsort_insertion :: "rat list \<Rightarrow> nat list" where
  "argsort_insertion ks = sort_key (\<lambda>i. ks ! i) [0..<length ks]"

definition techniques_example :: "raw_technique list" where
  "techniques_example =
     [\<lparr> technique_id = Some (Val ''T1048''),
         technique = Some (Val ''Exfiltration Over Alternative Protocol''),
         technique_description = Some (Val ''Adversaries may steal data by exfiltrating it''),
         tactic' = Some (Val [''exfiltration'']) \<rparr>,
      \<lparr> technique_id = Some (Val ''T1566''), technique = Some (Val ''Phishing''),
         technique_description = Some (Val ''Adversaries may send phishing messages''),
         tactic' = Some (Val [''initial-access'']) \<rparr>,
      \<lparr> technique_id = Some (Val ''T1059''),
         technique = Some (Val ''Command and Scripting Interpreter''),
         technique_description = Some (Val ''Adversaries may abuse command interpreters''),
         tactic' = Some (Val [''execution'']) \<rparr>,
      \<lparr> technique_id = Some (Val ''T1078''), technique = Some (Val ''Valid Accounts''),
         technique_description = Some (Val ''Adversaries may obtain and abuse credentials''),
         tactic' = Some (Val [''defense-evasion'', ''persistence'']) \<rparr>]"

definition technique_details_example :: "technique_detail list" where
  "technique_details_example =
     [\<lparr> id' = Val ''T1048'', name = Val ''Exfiltration Over Alternative Protocol'',
         description = Val ''Adversaries may steal data by exfiltrating it'',
         tactic_str = ''exfiltration'' \<rparr>,
      \<lparr> id' = Val ''T1566'', name = Val ''Phishing'',
         description = Val ''Adversaries may send phishing messages'',
         tactic_str = ''initial-access'' \<rparr>,
      \<lparr> id' = Val ''T1059'', name = Val ''Command and Scripting Interpreter'',
         description = Val ''Adversaries may abuse command interpreters'',
         tactic_str = ''execution'' \<rparr>,
      \<lparr> id' = Val ''T1078'', name = Val ''Valid Accounts'',
         description = Val ''Adversaries may obtain and abuse credentials'',
         tactic_str = ''defense-evasion, persistence'' \<rparr>]"

text \<open>
  Two records as the provider returns them where it has no data: every key present,
  the id \<^verbatim>\<open>None\<close> in the first, the list of tactics \<^verbatim>\<open>None\<close> in the second.
\<close>

definition technique_without_id :: raw_technique where
  "technique_without_id =
     \<lparr> technique_id = Some PyNone, technique = Some (Val ''Phishing''),
       technique_description = Some (Val ''Adversaries may send phishing messages''),
       tactic' = Some (Val [''initial-access'']) \<rparr>"

definition technique_without_tactics :: raw_technique where
  "technique_without_tactics =
     \<lparr> technique_id = Some (Val ''T1566''), technique = Some (Val ''Phishing''),
       technique_description = Some (Val ''Adversaries may send phishing messages''),
       tactic' = Some PyNone \<rparr>"

definition similarity_example :: "string or_none \<Rightarrow> string or_none \<Rightarrow> rat" where
  "similarity_example q d =
     (if q = d then 1
      else if d = Val ''Adversaries may send phishing messages'' then 81 / 100
      else if d = Val ''Adversaries may obtain and abuse credentials'' then 1 / 2
      else if d = Val ''Adversaries may abuse command interpreters'' then 1 / 32
      else 17 / 50)"

definition env_example :: "string or_none env" where
  "env_example =
     \<lparr> encode = (\<lambda>s. Inr (Val s)),
       encode_batch = (\<lambda>ss. Inr ss),
       get_techniques = Inr techniques_example,
       pytorch_cos_sim =
         (\<lambda>q ds. if ds = [] then Inl ''mat1 and mat2 shapes cannot be multiplied''
                  else Inr [map (similarity_example q) ds]),
       argsort = argsort_insertion \<rparr>"

definition callback_example :: "nat \<Rightarrow> exn option" where
  "callback_example v = None"

definition gui_example :: gui where
  "gui_example =
     \<lparr> entry_sentence = [], progress_bar = 0, result_text = [], result_queue = [],
       threads = [], showinfo = [], showerror = [] \<rparr>"

text \<open>
  A schedule of two submissions in quick succession: both are submitted before either
  worker starts, the two workers then run one after the other, and the timer polls twice.
\<close>

definition workers_example :: "action list" where
  "workers_example =
     map Worker (fst (find_similar_techniques env_example ''phishing email with malicious attachment'' callback_example)) @
     map Worker (fst (find_similar_techniques env_example ''Adversaries may send phishing messages'' callback_example)) @
     [CheckQueue, CheckQueue]"

definition schedule_example :: "action list" where
  "schedule_example =
     [Type ''phishing email with malicious attachment'', Submit,
      Type ''Adversaries may send phishing messages'', Submit] @ workers_example"

section \<open>Building the technique details\<close>

lemma technique_detail_of_absent:
  assumes "technique_detail_of t = Inr d"
  shows "(technique_id t = None \<longrightarrow> id' d = Val ''No ID'') \<and>
         (technique t = None \<longrightarrow> name d = Val ''No Name'') \<and>
         (technique_description t = None \<longrightarrow> description d = Val ''No Description'') \<and>
         (tactic' t = None \<longrightarrow> tactic_str d = [])"
  using assms
  by (auto simp: technique_detail_of_def join_value_def get_def split: or_none.splits option.splits)

text \<open>
  C6 asks for the placeholders wherever the provider has no id, name, description or
  list of tactics. The code gives them for an absent key only. On a record with the id
  present as \<^verbatim>\<open>None\<close> the detail holds \<^verbatim>\<open>None\<close>, which the result renders as
  \<^verbatim>\<open>None\<close> and not as \<^verbatim>\<open>No ID\<close>; on a record with the tactics present as \<^verbatim>\<open>None\<close>
  the join raises, and no detail is built.
\<close>

theorem technique_detail_of_none:
  "technique_detail_of technique_without_id =
     Inr \<lparr> id' = PyNone, name = Val ''Phishing'',
           description = Val ''Adversaries may send phishing messages'',
           tactic_str = ''initial-access'' \<rparr> \<and>
   str_of (id' (projr (technique_detail_of technique_without_id))) = ''None'' \<and>
   technique_detail_of technique_without_tactics = Inl ''can only join an iterable'' \<and>
   technique_details_of [technique_without_tactics] = Inl ''can only join an iterable''"
  by (simp add: technique_detail_of_def technique_without_id_def technique_without_tactics_def
        join_value_def get_def str_of_def)

section \<open>Ranking\<close>

lemma lookup_matches_in_range:
  "list_all (\<lambda>i. i < length ds \<and> i < length row) idx \<Longrightarrow>
   lookup_matches ds row idx = Inr (map (\<lambda>i. scored (ds ! i) (row ! i)) idx)"
  by (induction idx) auto

lemma similarity_scored: "similarity (scored d s) = s"
  by (simp add: scored_def)

lemma sorted_neg_keys:
  "list_all (\<lambda>i. i < length row) idx \<Longrightarrow> sorted (map (\<lambda>i. map uminus row ! i) idx) \<Longrightarrow>
   sorted_wrt (\<ge>) (map (\<lambda>i. (row ! i :: rat)) idx)"
  by (induction idx) (auto simp: list_all_iff)

lemma top_matches_sorted:
  assumes len: "length row = length technique_details"
    and ok: "argsort_ok sort_indices (map uminus row)"
  shows "\<exists>ms. top_matches sort_indices technique_details row = Inr ms \<and>
           length ms = min 3 (length technique_details) \<and>
           sorted_wrt (\<ge>) (map similarity ms) \<and>
           (\<forall>m\<in>set ms. \<exists>i<length technique_details. m = scored (technique_details ! i) (row ! i))"
proof -
  define ks where "ks = map uminus row"
  define idx where "idx = top_matches_indices sort_indices row"
  define ms where "ms = map (\<lambda>i. scored (technique_details ! i) (row ! i)) idx"
  have idx: "idx = take 3 (sort_indices ks)"
    by (simp add: idx_def ks_def top_matches_indices_def)
  from ok have l: "length (sort_indices ks) = length row"
    and r: "list_all (\<lambda>i. i < length row) (sort_indices ks)"
    and s: "sorted (map (\<lambda>i. ks ! i) (sort_indices ks))"
    by (simp_all add: argsort_ok_def ks_def)
  have r3: "list_all (\<lambda>i. i < length row) idx"
    using r unfolding idx list_all_iff by (auto dest: in_set_takeD)
  have s3: "sorted (map (\<lambda>i. ks ! i) idx)"
    using s unfolding idx by (simp add: take_map [symmetric] sorted_wrt_take)
  have run: "top_matches sort_indices technique_details row = Inr ms"
    unfolding top_matches_def ms_def idx_def [symmetric]
    using r3 len by (intro lookup_matches_in_range) (simp add: list_all_iff)
  have n: "length ms = min 3 (length technique_details)"
    by (simp add: ms_def idx l len [symmetric] min.commute)
  have d: "sorted_wrt (\<ge>) (map similarity ms)"
    using sorted_neg_keys [OF r3] s3
    by (simp add: ms_def ks_def comp_def similarity_scored)
  have m: "\<forall>m\<in>set ms. \<exists>i<length technique_details. m = scored (technique_details ! i) (row ! i)"
    using r3 len by (auto simp: ms_def list_all_iff)
  from run n d m show ?thesis by blast
qed

text \<open>
  C1, as amended: for every list of \<open>n \<ge> 1\<close> candidates on which the encoder and the
  similarity return, the row holding one similarity per candidate, and on whose negated
  row the argsort keeps its promise, the ranking (lines 67 to 72) raises nothing and
  returns exactly \<open>min 3 n\<close> scored matches, each a candidate with its own similarity,
  in non-increasing order of similarity.
\<close>

theorem rank_nonempty:
  assumes ne: "technique_details \<noteq> []"
    and enc: "encode_batch env (map description technique_details) = Inr embs"
    and sim: "pytorch_cos_sim env sentence_embedding embs = Inr (row # rest)"
    and len: "length row = length technique_details"
    and ok: "argsort_ok (argsort env) (map uminus row)"
  shows "\<exists>ms. rank env sentence_embedding technique_details = Inr ms \<and>
           length ms = min 3 (length technique_details) \<and>
           0 < length ms \<and>
           sorted_wrt (\<ge>) (map similarity ms) \<and>
           (\<forall>m\<in>set ms. \<exists>i<length technique_details. m = scored (technique_details ! i) (row ! i))"
proof -
  from top_matches_sorted [OF len ok] obtain ms where
    t: "top_matches (argsort env) technique_details row = Inr ms"
    and n: "length ms = min 3 (length technique_details)"
    and d: "sorted_wrt (\<ge>) (map similarity ms)"
    and m: "\<forall>m\<in>set ms. \<exists>i<length technique_details. m = scored (technique_details ! i) (row ! i)"
    by blast
  have r: "rank env sentence_embedding technique_details = Inr ms"
    by (simp add: rank_def enc sim t)
  from ne n have p: "0 < length ms"
    by (cases technique_details) simp_all
  from r n p d m show ?thesis by blast
qed

section \<open>The submit handler\<close>

lemma strip_blank: "list_all isspace s \<Longrightarrow> strip s = []"
proof -
  assume "list_all isspace s"
  then have d: "dropWhile isspace s = []"
    by (induction s) auto
  show ?thesis
    unfolding strip_def d by simp
qed

text \<open>
  C5: when the input text is empty or holds white space only, \<^verbatim>\<open>on_submit\<close> opens the
  notice and changes nothing else: no thread is started, and the progress bar, the
  display and the queue are as before.
\<close>

theorem on_submit_blank:
  assumes "list_all isspace (entry_sentence g)"
  shows "on_submit g = g\<lparr>showinfo := showinfo g @ [(''Info'', ''Please enter a sentence.'')]\<rparr> \<and>
         threads (on_submit g) = threads g \<and>
         progress_bar (on_submit g) = progress_bar g \<and>
         result_text (on_submit g) = result_text g \<and>
         result_queue (on_submit g) = result_queue g"
  using strip_blank [OF assms] by (simp add: on_submit_def)

theorem on_submit_blank_witness:
  "list_all isspace (entry_sentence (gui_example\<lparr>entry_sentence := ''   '', progress_bar := 50, result_text := ''ID: T1566''\<rparr>)) \<and>
   on_submit (gui_example\<lparr>entry_sentence := ''   '', progress_bar := 50, result_text := ''ID: T1566''\<rparr>) =
     gui_example\<lparr>entry_sentence := ''   '', progress_bar := 50, result_text := ''ID: T1566'',
                  showinfo := [(''Info'', ''Please enter a sentence.'')]\<rparr>"
proof -
  let ?g = "gui_example\<lparr>entry_sentence := ''   '', progress_bar := 50, result_text := ''ID: T1566''\<rparr>"
  have h: "list_all isspace (entry_sentence ?g)"
    by (simp add: isspace_def)
  from on_submit_blank [OF h] show ?thesis
    using h by (simp add: gui_example_def)
qed

section \<open>Failures of the providers\<close>

text \<open>
  C4: when encoding the query raises, or fetching the techniques raises, the worker
  returns after the error dialog, which is its last event: nothing is put on the queue,
  the callback has been given nothing, or 20 only, the query is encoded once and the
  techniques are fetched at most once.
\<close>

theorem failure_aborts:
  assumes "encode env sentence = Inl e1 \<or> get_techniques env = Inl e2"
  shows "snd (find_similar_techniques env sentence cb) = Returned \<and>
         puts (fst (find_similar_techniques env sentence cb)) = [] \<and>
         (\<exists>t m. last (fst (find_similar_techniques env sentence cb)) = ShowError t m) \<and>
         (progress_values (fst (find_similar_techniques env sentence cb)) = [] \<or>
          progress_values (fst (find_similar_techniques env sentence cb)) = [20]) \<and>
         count_list (fst (find_similar_techniques env sentence cb)) (Encode sentence) = 1 \<and>
         count_list (fst (find_similar_techniques env sentence cb)) GetTechniques \<le> 1"
  using assms
  by (auto simp: find_similar_techniques_def split: sum.splits option.splits)

theorem failure_aborts_witness:
  "get_techniques (env_example\<lparr>get_techniques := Inl ''connection refused''\<rparr>) = Inl ''connection refused'' \<and>
   find_similar_techniques (env_example\<lparr>get_techniques := Inl ''connection refused''\<rparr>) ''phishing email'' callback_example =
     ([Encode ''phishing email'', Progress 20, GetTechniques,
       ShowError ''Error'' ''Error fetching techniques from MITRE ATT&CK database: connection refused''],
      Returned) \<and>
   puts (fst (find_similar_techniques (env_example\<lparr>get_techniques := Inl ''connection refused''\<rparr>) ''phishing email'' callback_example)) = []"
proof -
  let ?env = "env_example\<lparr>get_techniques := Inl ''connection refused''\<rparr>"
  have g: "get_techniques ?env = Inl ''connection refused''"
    by simp
  then have h: "encode ?env ''phishing email'' = Inl [] \<or> get_techniques ?env = Inl ''connection refused''"
    by (rule disjI2)
  have r: "find_similar_techniques ?env ''phishing email'' callback_example =
     ([Encode ''phishing email'', Progress 20, GetTechniques,
       ShowError ''Error'' ''Error fetching techniques from MITRE ATT&CK database: connection refused''],
      Returned)"
    by (simp add: find_similar_techniques_def env_example_def callback_example_def)
  note a = failure_aborts [OF h, of callback_example]
  show ?thesis
    by (intro conjI g r conjunct1 [OF conjunct2 [OF a]])
qed

section \<open>A worked example\<close>

text \<open>
  The example corpus run through the worker, step by step: the details, the row of
  similarities, the indices, the matches, the text, and the whole trace.
\<close>

lemma digit_char_values:
  "digit_char 0 = CHR ''0''" "digit_char 1 = CHR ''1''" "digit_char 2 = CHR ''2''"
  "digit_char 3 = CHR ''3''" "digit_char 4 = CHR ''4''" "digit_char 5 = CHR ''5''"
  "digit_char 6 = CHR ''6''" "digit_char 7 = CHR ''7''" "digit_char 8 = CHR ''8''"
  "digit_char 9 = CHR ''9''" "digit_char (Suc 0) = CHR ''1''"
  by code_simp+

lemma replicate_small:
  "replicate 2 c = [c, c]" "replicate 3 c = [c, c, c]"
  by (simp_all add: numeral_2_eq_2 numeral_3_eq_3)

lemma format_example:
  "format_4f (81 / 100) = ''0.8100''" "format_4f (1 / 2) = ''0.5000''"
  "format_4f (17 / 50) = ''0.3400''" "format_4f 1 = ''1.0000''"
  by (simp_all add: format_4f_def round_half_even_def zero_pad_def show_nat.simps digit_char_values replicate_small)

lemma details_example:
  "technique_details_of techniques_example = Inr technique_details_example"
  by (simp add: techniques_example_def technique_details_example_def technique_detail_of_def
        join_value_def get_def)

lemma argsort_example:
  "argsort_insertion [- (17 / 50), - (81 / 100), - (1 / 32), - (1 / 2)] = [1, 3, 0, 2]"
  "argsort_insertion [- (17 / 50), - 1, - (1 / 32), - (1 / 2)] = [1, 3, 0, 2]"
  by code_simp+

lemma top_matches_example:
  "top_matches argsort_insertion technique_details_example [17 / 50, 81 / 100, 1 / 32, 1 / 2] =
     Inr [\<lparr> id' = Val ''T1566'', name = Val ''Phishing'',
             description = Val ''Adversaries may send phishing messages'',
             tactic_str = ''initial-access'', similarity = 81 / 100 \<rparr>,
          \<lparr> id' = Val ''T1078'', name = Val ''Valid Accounts'',
             description = Val ''Adversaries may obtain and abuse credentials'',
             tactic_str = ''defense-evasion, persistence'', similarity = 1 / 2 \<rparr>,
          \<lparr> id' = Val ''T1048'', name = Val ''Exfiltration Over Alternative Protocol'',
             description = Val ''Adversaries may steal data by exfiltrating it'',
             tactic_str = ''exfiltration'', similarity = 17 / 50 \<rparr>]"
  by (simp add: top_matches_def top_matches_indices_def argsort_example technique_details_example_def scored_def)

lemma top_matches_example_b:
  "top_matches argsort_insertion technique_details_example [17 / 50, 1, 1 / 32, 1 / 2] =
     Inr [\<lparr> id' = Val ''T1566'', name = Val ''Phishing'',
             description = Val ''Adversaries may send phishing messages'',
             tactic_str = ''initial-access'', similarity = 1 \<rparr>,
          \<lparr> id' = Val ''T1078'', name = Val ''Valid Accounts'',
             description = Val ''Adversaries may obtain and abuse credentials'',
             tactic_str = ''defense-evasion, persistence'', similarity = 1 / 2 \<rparr>,
          \<lparr> id' = Val ''T1048'', name = Val ''Exfiltration Over Alternative Protocol'',
             description = Val ''Adversaries may steal data by exfiltrating it'',
             tactic_str = ''exfiltration'', similarity = 17 / 50 \<rparr>]"
  by (simp add: top_matches_def top_matches_indices_def argsort_example technique_details_example_def scored_def)

lemma run_success:
  assumes "encode env sentence = Inr v" and "cb 20 = None"
    and "get_techniques env = Inr ts" and "cb 50 = None"
    and "technique_details_of ts = Inr ds"
    and "rank env v ds = Inr ms"
    and "cb 100 = None"
  shows "find_similar_techniques env sentence cb =
           ([Encode sentence, Progress 20, GetTechniques, Progress 50,
             EncodeBatch (map description ds),
             Put (result_text_of ms), Progress 100], Returned)"
  by (simp add: find_similar_techniques_def rank_and_post_def assms)

lemma env_example_simps:
  "encode env_example s = Inr (Val s)"
  "encode_batch env_example ss = Inr ss"
  "get_techniques env_example = Inr techniques_example"
  "pytorch_cos_sim env_example q (d # ds) = Inr [map (similarity_example q) (d # ds)]"
  "pytorch_cos_sim env_example q [] = Inl ''mat1 and mat2 shapes cannot be multiplied''"
  "argsort env_example = argsort_insertion"
  by (simp_all add: env_example_def)

lemma descriptions_example:
  "map description technique_details_example =
     [Val ''Adversaries may steal data by exfiltrating it'',
      Val ''Adversaries may send phishing messages'',
      Val ''Adversaries may abuse command interpreters'',
      Val ''Adversaries may obtain and abuse credentials'']"
  by (simp add: technique_details_example_def)

lemma row_example:
  "map (similarity_example (Val ''phishing email with malicious attachment''))
     [Val ''Adversaries may steal data by exfiltrating it'',
      Val ''Adversaries may send phishing messages'',
      Val ''Adversaries may abuse command interpreters'',
      Val ''Adversaries may obtain and abuse credentials''] = [17 / 50, 81 / 100, 1 / 32, 1 / 2]"
  "map (similarity_example (Val ''Adversaries may send phishing messages''))
     [Val ''Adversaries may steal data by exfiltrating it'',
      Val ''Adversaries may send phishing messages'',
      Val ''Adversaries may abuse command interpreters'',
      Val ''Adversaries may obtain and abuse credentials''] = [17 / 50, 1, 1 / 32, 1 / 2]"
  by (simp_all add: similarity_example_def)

lemma rank_example:
  "rank env_example (Val ''phishing email with malicious attachment'') technique_details_example =
     top_matches argsort_insertion technique_details_example [17 / 50, 81 / 100, 1 / 32, 1 / 2]"
  "rank env_example (Val ''Adversaries may send phishing messages'') technique_details_example =
     top_matches argsort_insertion technique_details_example [17 / 50, 1, 1 / 32, 1 / 2]"
  by (simp_all add: rank_def descriptions_example env_example_simps similarity_example_def)

lemma result_text_example:
  "result_text_of
     [\<lparr> id' = Val ''T1566'', name = Val ''Phishing'',
         description = Val ''Adversaries may send phishing messages'',
         tactic_str = ''initial-access'', similarity = 81 / 100 \<rparr>,
      \<lparr> id' = Val ''T1078'', name = Val ''Valid Accounts'',
         description = Val ''Adversaries may obtain and abuse credentials'',
         tactic_str = ''defense-evasion, persistence'', similarity = 1 / 2 \<rparr>,
      \<lparr> id' = Val ''T1048'', name = Val ''Exfiltration Over Alternative Protocol'',
         description = Val ''Adversaries may steal data by exfiltrating it'',
         tactic_str = ''exfiltration'', similarity = 17 / 50 \<rparr>] =
   ''ID: T1566\<newline>Name: Phishing\<newline>Tactic: initial-access\<newline>Similarity: 0.8100\<newline>\<newline>ID: T1078\<newline>Name: Valid Accounts\<newline>Tactic: defense-evasion, persistence\<newline>Similarity: 0.5000\<newline>\<newline>ID: T1048\<newline>Name: Exfiltration Over Alternative Protocol\<newline>Tactic: exfiltration\<newline>Similarity: 0.3400''"
  by (simp add: result_text_of_def format_match_def format_example str_of_def)

lemma result_text_example_b:
  "result_text_of
     [\<lparr> id' = Val ''T1566'', name = Val ''Phishing'',
         description = Val ''Adversaries may send phishing messages'',
         tactic_str = ''initial-access'', similarity = 1 \<rparr>,
      \<lparr> id' = Val ''T1078'', name = Val ''Valid Accounts'',
         description = Val ''Adversaries may obtain and abuse credentials'',
         tactic_str = ''defense-evasion, persistence'', similarity = 1 / 2 \<rparr>,
      \<lparr> id' = Val ''T1048'', name = Val ''Exfiltration Over Alternative Protocol'',
         description = Val ''Adversaries may steal data by exfiltrating it'',
         tactic_str = ''exfiltration'', similarity = 17 / 50 \<rparr>] =
   ''ID: T1566\<newline>Name: Phishing\<newline>Tactic: initial-access\<newline>Similarity: 1.0000\<newline>\<newline>ID: T1078\<newline>Name: Valid Accounts\<newline>Tactic: defense-evasion, persistence\<newline>Similarity: 0.5000\<newline>\<newline>ID: T1048\<newline>Name: Exfiltration Over Alternative Protocol\<newline>Tactic: exfiltration\<newline>Similarity: 0.3400''"
  by (simp add: result_text_of_def format_match_def format_example str_of_def)

lemma callback_example_simps:
  "callback_example 20 = None" "callback_example 50 = None" "callback_example 100 = None"
  by (simp_all add: callback_example_def)

lemma example_run:
  "find_similar_techniques env_example ''phishing email with malicious attachment'' callback_example =
     ([Encode ''phishing email with malicious attachment'', Progress 20, GetTechniques, Progress 50,
       EncodeBatch [Val ''Adversaries may steal data by exfiltrating it'',
                    Val ''Adversaries may send phishing messages'',
                    Val ''Adversaries may abuse command interpreters'',
                    Val ''Adversaries may obtain and abuse credentials''],
       Put ''ID: T1566\<newline>Name: Phishing\<newline>Tactic: initial-access\<newline>Similarity: 0.8100\<newline>\<newline>ID: T1078\<newline>Name: Valid Accounts\<newline>Tactic: defense-evasion, persistence\<newline>Similarity: 0.5000\<newline>\<newline>ID: T1048\<newline>Name: Exfiltration Over Alternative Protocol\<newline>Tactic: exfiltration\<newline>Similarity: 0.3400'',
       Progress 100], Returned)"
  using run_success [OF env_example_simps(1) callback_example_simps(1) env_example_simps(3)
      callback_example_simps(2) details_example
      trans [OF rank_example(1) top_matches_example] callback_example_simps(3)]
  unfolding result_text_example descriptions_example .

lemma example_run_b:
  "find_similar_techniques env_example ''Adversaries may send phishing messages'' callback_example =
     ([Encode ''Adversaries may send phishing messages'', Progress 20, GetTechniques, Progress 50,
       EncodeBatch [Val ''Adversaries may steal data by exfiltrating it'',
                    Val ''Adversaries may send phishing messages'',
                    Val ''Adversaries may abuse command interpreters'',
                    Val ''Adversaries may obtain and abuse credentials''],
       Put ''ID: T1566\<newline>Name: Phishing\<newline>Tactic: initial-access\<newline>Similarity: 1.0000\<newline>\<newline>ID: T1078\<newline>Name: Valid Accounts\<newline>Tactic: defense-evasion, persistence\<newline>Similarity: 0.5000\<newline>\<newline>ID: T1048\<newline>Name: Exfiltration Over Alternative Protocol\<newline>Tactic: exfiltration\<newline>Similarity: 0.3400'',
       Progress 100], Returned)"
  using run_success [OF env_example_simps(1) callback_example_simps(1) env_example_simps(3)
      callback_example_simps(2) details_example
      trans [OF rank_example(2) top_matches_example_b] callback_example_simps(3)]
  unfolding result_text_example_b descriptions_example .

theorem rank_nonempty_witness:
  "technique_details_example \<noteq> [] \<and>
   encode_batch env_example (map description technique_details_example) =
     Inr (map description technique_details_example) \<and>
   pytorch_cos_sim env_example (Val ''phishing email with malicious attachment'')
     (map description technique_details_example) = Inr ([17 / 50, 81 / 100, 1 / 32, 1 / 2] # []) \<and>
   length [17 / 50, 81 / 100, 1 / 32, 1 / 2 :: rat] = length technique_details_example \<and>
   argsort_ok (argsort env_example) (map uminus [17 / 50, 81 / 100, 1 / 32, 1 / 2]) \<and>
   (\<exists>ms. rank env_example (Val ''phishing email with malicious attachment'') technique_details_example = Inr ms \<and>
         length ms = 3 \<and> map similarity ms = [81 / 100, 1 / 2, 17 / 50])"
proof -
  let ?row = "[17 / 50, 81 / 100, 1 / 32, 1 / 2 :: rat]"
  let ?q = "Val ''phishing email with malicious attachment''"
  have h0: "technique_details_example \<noteq> []"
    by (simp add: technique_details_example_def)
  have h1: "encode_batch env_example (map description technique_details_example) =
      Inr (map description technique_details_example)"
    by (rule env_example_simps)
  have h2: "pytorch_cos_sim env_example ?q (map description technique_details_example) = Inr (?row # [])"
    by (simp add: descriptions_example env_example_simps similarity_example_def)
  have h3: "length ?row = length technique_details_example"
    by (simp add: technique_details_example_def)
  have a: "argsort_ok argsort_insertion (map uminus ?row)"
    by code_simp
  have h4: "argsort_ok (argsort env_example) (map uminus ?row)"
    unfolding env_example_simps by (rule a)
  from rank_nonempty [OF h0 h1 h2 h3 h4] obtain ms where
    ms: "rank env_example ?q technique_details_example = Inr ms"
    and n: "length ms = min 3 (length technique_details_example)"
    by blast
  from n have n3: "length ms = 3"
    by (simp add: technique_details_example_def)
  from ms have s: "map similarity ms = [81 / 100, 1 / 2, 17 / 50]"
    unfolding rank_example top_matches_example by auto
  from ms n3 s have "\<exists>ms. rank env_example ?q technique_details_example = Inr ms \<and>
         length ms = 3 \<and> map similarity ms = [81 / 100, 1 / 2, 17 / 50]"
    by (intro exI [of _ ms] conjI)
  with h0 h1 h2 h3 h4 show ?thesis
    by (intro conjI)
qed

text \<open>
  C1, as stated, fails for the empty list of candidates: the similarity refuses the
  empty batch before any index is sorted, so the ranking yields an exception and not
  the empty sequence, and the worker that fetched no technique ends with that
  exception and puts nothing.
\<close>

theorem rank_empty_raises:
  "rank env_example (Val ''phishing email'') [] = Inl ''mat1 and mat2 shapes cannot be multiplied'' \<and>
   find_similar_techniques (env_example\<lparr>get_techniques := Inr []\<rparr>) ''phishing email'' callback_example =
     ([Encode ''phishing email'', Progress 20, GetTechniques, Progress 50, EncodeBatch []],
      Raised ''mat1 and mat2 shapes cannot be multiplied'')"
  by (simp add: rank_def find_similar_techniques_def rank_and_post_def env_example_def callback_example_def)

section \<open>Completed runs\<close>

lemma rank_Inr:
  assumes "rank env v ds = Inr ms"
  shows "\<exists>embs row rest.
           encode_batch env (map description ds) = Inr embs \<and>
           pytorch_cos_sim env v embs = Inr (row # rest) \<and>
           top_matches (argsort env) ds row = Inr ms"
  using assms by (auto simp: rank_def split: sum.splits list.splits)

lemma completed_run:
  assumes "completed (find_similar_techniques env sentence cb)"
  shows "\<exists>v ts ds ms.
           encode env sentence = Inr v \<and> cb 20 = None \<and>
           get_techniques env = Inr ts \<and> cb 50 = None \<and>
           technique_details_of ts = Inr ds \<and>
           rank env v ds = Inr ms \<and>
           cb 100 = None \<and>
           fst (find_similar_techniques env sentence cb) =
             [Encode sentence, Progress 20, GetTechniques, Progress 50,
              EncodeBatch (map description ds),
              Put (result_text_of ms), Progress 100]"
  using assms
  by (auto simp: completed_def find_similar_techniques_def rank_and_post_def
           split: sum.splits option.splits)

lemma completed_example:
  "completed (find_similar_techniques env_example ''phishing email with malicious attachment'' callback_example)"
  unfolding example_run by (simp add: completed_def)

text \<open>
  C8: in a run that completes, the callback is invoked with 20 directly after the
  query has been encoded, with 50 directly after the techniques have been fetched, and
  with 100 after the ranking has returned its matches and their text has been put;
  these are its only invocations, in this order.
\<close>

theorem progress_milestones:
  assumes "completed (find_similar_techniques env sentence cb)"
  shows "\<exists>v ts ds ms.
           encode env sentence = Inr v \<and>
           get_techniques env = Inr ts \<and>
           technique_details_of ts = Inr ds \<and>
           rank env v ds = Inr ms \<and>
           fst (find_similar_techniques env sentence cb) =
             [Encode sentence, Progress 20, GetTechniques, Progress 50,
              EncodeBatch (map description ds), Put (result_text_of ms), Progress 100] \<and>
           progress_values (fst (find_similar_techniques env sentence cb)) = [20, 50, 100]"
proof -
  from completed_run [OF assms] obtain v ts ds ms where
    e: "encode env sentence = Inr v" and g: "get_techniques env = Inr ts"
    and d: "technique_details_of ts = Inr ds" and r: "rank env v ds = Inr ms"
    and tr: "fst (find_similar_techniques env sentence cb) =
       [Encode sentence, Progress 20, GetTechniques, Progress 50,
        EncodeBatch (map description ds), Put (result_text_of ms), Progress 100]"
    by blast
  have p: "progress_values (fst (find_similar_techniques env sentence cb)) = [20, 50, 100]"
    unfolding tr by simp
  from e g d r tr p show ?thesis
    by (intro exI [of _ v] exI [of _ ts] exI [of _ ds] exI [of _ ms] conjI)
qed

theorem progress_milestones_witness:
  "completed (find_similar_techniques env_example ''phishing email with malicious attachment'' callback_example) \<and>
   (\<exists>ds res.
      fst (find_similar_techniques env_example ''phishing email with malicious attachment'' callback_example) =
        [Encode ''phishing email with malicious attachment'', Progress 20, GetTechniques, Progress 50,
         EncodeBatch ds, Put res, Progress 100]) \<and>
   progress_values (fst (find_similar_techniques env_example ''phishing email with malicious attachment'' callback_example)) =
     [20, 50, 100]"
proof -
  note c = progress_milestones [OF completed_example]
  from c have p: "progress_values (fst (find_similar_techniques env_example ''phishing email with malicious attachment'' callback_example)) =
     [20, 50, 100]"
    by (elim exE conjE) assumption
  from c have "\<exists>ds res.
      fst (find_similar_techniques env_example ''phishing email with malicious attachment'' callback_example) =
        [Encode ''phishing email with malicious attachment'', Progress 20, GetTechniques, Progress 50,
         EncodeBatch ds, Put res, Progress 100]"
    by (elim exE conjE) (intro exI, assumption)
  with completed_example p show ?thesis
    by (intro conjI)
qed

text \<open>
  C10: in a run that completes, the result is put on the queue immediately before the
  one invocation of the callback with 100; no earlier event is a put or that
  invocation, so at every point of the run where the callback has been given 100 the
  result has already been put.
\<close>

theorem put_before_100:
  assumes "completed (find_similar_techniques env sentence cb)"
  shows "\<exists>pre res.
           fst (find_similar_techniques env sentence cb) = pre @ [Put res, Progress 100] \<and>
           Progress 100 \<notin> set pre \<and> puts pre = [] \<and>
           (\<forall>n. Progress 100 \<in> set (take n (fst (find_similar_techniques env sentence cb))) \<longrightarrow>
                Put res \<in> set (take n (fst (find_similar_techniques env sentence cb))))"
proof -
  from completed_run [OF assms] obtain ds res where
    tr: "fst (find_similar_techniques env sentence cb) =
       [Encode sentence, Progress 20, GetTechniques, Progress 50, EncodeBatch ds] @ [Put res, Progress 100]"
    by auto
  have "\<forall>n. Progress 100 \<in> set (take n (fst (find_similar_techniques env sentence cb))) \<longrightarrow>
             Put res \<in> set (take n (fst (find_similar_techniques env sentence cb)))"
  proof (intro allI impI)
    fix n
    assume a: "Progress 100 \<in> set (take n (fst (find_similar_techniques env sentence cb)))"
    have "7 \<le> n"
    proof (rule ccontr)
      assume "\<not> 7 \<le> n"
      then have "n \<in> {0, 1, 2, 3, 4, 5, 6}" by auto
      with a show False unfolding tr by (auto simp: take_Cons')
    qed
    then show "Put res \<in> set (take n (fst (find_similar_techniques env sentence cb)))"
      unfolding tr by simp
  qed
  with tr show ?thesis
    by (intro exI [of _ "[Encode sentence, Progress 20, GetTechniques, Progress 50, EncodeBatch ds]"] exI [of _ res]) simp
qed

theorem put_before_100_witness:
  "completed (find_similar_techniques env_example ''phishing email with malicious attachment'' callback_example) \<and>
   (\<exists>pre res.
      fst (find_similar_techniques env_example ''phishing email with malicious attachment'' callback_example) =
        pre @ [Put res, Progress 100] \<and> Progress 100 \<notin> set pre \<and> puts pre = [])"
proof -
  from put_before_100 [OF completed_example] have
    "\<exists>pre res.
      fst (find_similar_techniques env_example ''phishing email with malicious attachment'' callback_example) =
        pre @ [Put res, Progress 100] \<and> Progress 100 \<notin> set pre \<and> puts pre = []"
    by blast
  with completed_example show ?thesis
    by (intro conjI)
qed

section \<open>The format of the result\<close>

lemma is_digit_digit_char: "d < 10 \<Longrightarrow> is_digit (digit_char d)"
  by (simp add: is_digit_def digit_char_def)

lemma show_nat_digits: "list_all is_digit (show_nat n)"
proof (induction n rule: show_nat.induct)
  case (1 n)
  show ?case
  proof (cases "n < 10")
    case True
    then show ?thesis
      by (subst show_nat.simps) (simp add: is_digit_digit_char)
  next
    case False
    from 1 [OF False] have "list_all is_digit (show_nat (n div 10))" .
    with False show ?thesis
      by (subst show_nat.simps) (simp add: is_digit_digit_char)
  qed
qed

lemma show_nat_nonempty: "show_nat n \<noteq> []"
  by (subst show_nat.simps) simp

lemma length_show_nat_10: "n < 10 \<Longrightarrow> length (show_nat n) = 1"
  by (subst show_nat.simps) simp

lemma length_show_nat_100: "n < 100 \<Longrightarrow> length (show_nat n) \<le> 2"
proof -
  assume "n < 100"
  then have "n div 10 < 10" by simp
  from length_show_nat_10 [OF this] show ?thesis
    by (subst show_nat.simps) simp
qed

lemma length_show_nat_1000: "n < 1000 \<Longrightarrow> length (show_nat n) \<le> 3"
proof -
  assume "n < 1000"
  then have "n div 10 < 100" by simp
  from length_show_nat_100 [OF this] show ?thesis
    by (subst show_nat.simps) simp
qed

lemma length_show_nat_10000: "n < 10000 \<Longrightarrow> length (show_nat n) \<le> 4"
proof -
  assume "n < 10000"
  then have "n div 10 < 1000" by simp
  from length_show_nat_1000 [OF this] show ?thesis
    by (subst show_nat.simps) simp
qed

lemma is_digit_zero: "is_digit (CHR ''0'')"
  by (simp add: is_digit_def)

lemma zero_pad_4: "length s \<le> 4 \<Longrightarrow> list_all is_digit s \<Longrightarrow>
  length (zero_pad 4 s) = 4 \<and> list_all is_digit (zero_pad 4 s)"
  by (auto simp: zero_pad_def is_digit_zero list_all_iff)

lemma fixed_shape:
  assumes "ip \<noteq> []" "list_all is_digit ip" "length fr = 4" "list_all is_digit fr"
  shows "fixed_point_4 (ip @ ''.'' @ fr)" and "fixed_point_4 (''-'' @ ip @ ''.'' @ fr)"
proof -
  from assms(1) obtain c cs where ip: "ip = c # cs"
    by (cases ip) auto
  with assms(2) have "is_digit c" by simp
  then have c: "c \<noteq> CHR ''-''"
    by (auto simp: is_digit_def)
  show "fixed_point_4 (ip @ ''.'' @ fr)"
    using assms c by (simp add: fixed_point_4_def ip)
  show "fixed_point_4 (''-'' @ ip @ ''.'' @ fr)"
    using assms by (simp add: fixed_point_4_def ip)
qed

lemma format_4f_fixed: "fixed_point_4 (format_4f x)"
proof -
  define n where "n = nat (round_half_even (\<bar>x\<bar> * 10000))"
  define ip where "ip = show_nat (n div 10000)"
  define fr where "fr = zero_pad 4 (show_nat (n mod 10000))"
  have "length (show_nat (n mod 10000)) \<le> 4"
    by (rule length_show_nat_10000) simp
  then have fr: "length fr = 4" "list_all is_digit fr"
    using zero_pad_4 [OF _ show_nat_digits] by (simp_all add: fr_def)
  have ip: "ip \<noteq> []" "list_all is_digit ip"
    by (simp_all add: ip_def show_nat_nonempty show_nat_digits)
  have "format_4f x = (if x < 0 then ''-'' else []) @ ip @ ''.'' @ fr"
    by (simp add: format_4f_def Let_def n_def ip_def fr_def)
  then show ?thesis
    using fixed_shape [OF ip fr] by (cases "x < 0") simp_all
qed


text \<open>
  C7: in a run that completes, exactly one text is put: the blocks of the top matches
  of the fetched techniques, one block per match, each block the four lines
  \<^verbatim>\<open>ID:\<close>, \<^verbatim>\<open>Name:\<close>, \<^verbatim>\<open>Tactic:\<close> and \<^verbatim>\<open>Similarity:\<close> with the
  similarity as a fixed-point number of four decimals, and two newlines (one blank
  line) between consecutive blocks.
\<close>

theorem result_text_format:
  assumes "completed (find_similar_techniques env sentence cb)"
  shows "\<exists>ts ds row ms.
           get_techniques env = Inr ts \<and>
           technique_details_of ts = Inr ds \<and>
           top_matches (argsort env) ds row = Inr ms \<and>
           puts (fst (find_similar_techniques env sentence cb)) =
             [join ''\<newline>\<newline>''
                (map (\<lambda>m. ''ID: '' @ str_of (id' m) @ ''\<newline>Name: '' @ str_of (name m) @
                          ''\<newline>Tactic: '' @ tactic_str m @
                          ''\<newline>Similarity: '' @ format_4f (similarity m)) ms)] \<and>
           list_all (\<lambda>m. fixed_point_4 (format_4f (similarity m))) ms"
proof -
  from completed_run [OF assms] obtain v ts ds ms where
    ts: "get_techniques env = Inr ts"
    and d: "technique_details_of ts = Inr ds"
    and r: "rank env v ds = Inr ms"
    and tr: "fst (find_similar_techniques env sentence cb) =
       [Encode sentence, Progress 20, GetTechniques, Progress 50, EncodeBatch (map description ds),
        Put (result_text_of ms), Progress 100]"
    by blast
  from rank_Inr [OF r] obtain row where
    ms: "top_matches (argsort env) ds row = Inr ms"
    by blast
  have f: "list_all (\<lambda>m. fixed_point_4 (format_4f (similarity m))) ms"
    by (simp add: list_all_iff format_4f_fixed)
  have p: "puts (fst (find_similar_techniques env sentence cb)) =
             [join ''\<newline>\<newline>''
                (map (\<lambda>m. ''ID: '' @ str_of (id' m) @ ''\<newline>Name: '' @ str_of (name m) @
                          ''\<newline>Tactic: '' @ tactic_str m @
                          ''\<newline>Similarity: '' @ format_4f (similarity m)) ms)]"
    unfolding tr by (simp add: result_text_of_def format_match_def [abs_def])
  from ts d ms p f show ?thesis
    by (intro exI [of _ ts] exI [of _ ds] exI [of _ row] exI [of _ ms] conjI)
qed

theorem result_text_format_witness:
  "completed (find_similar_techniques env_example ''phishing email with malicious attachment'' callback_example) \<and>
   puts (fst (find_similar_techniques env_example ''phishing email with malicious attachment'' callback_example)) =
     [''ID: T1566\<newline>Name: Phishing\<newline>Tactic: initial-access\<newline>Similarity: 0.8100\<newline>\<newline>ID: T1078\<newline>Name: Valid Accounts\<newline>Tactic: defense-evasion, persistence\<newline>Similarity: 0.5000\<newline>\<newline>ID: T1048\<newline>Name: Exfiltration Over Alternative Protocol\<newline>Tactic: exfiltration\<newline>Similarity: 0.3400''] \<and>
   (\<exists>ms :: top_match list. puts (fst (find_similar_techniques env_example ''phishing email with malicious attachment'' callback_example)) =
           [join ''\<newline>\<newline>''
                (map (\<lambda>m. ''ID: '' @ str_of (id' m) @ ''\<newline>Name: '' @ str_of (name m) @
                          ''\<newline>Tactic: '' @ tactic_str m @
                          ''\<newline>Similarity: '' @ format_4f (similarity m)) ms)] \<and>
         list_all (\<lambda>m. fixed_point_4 (format_4f (similarity m))) ms)"
proof -
  have v: "puts (fst (find_similar_techniques env_example ''phishing email with malicious attachment'' callback_example)) =
     [''ID: T1566\<newline>Name: Phishing\<newline>Tactic: initial-access\<newline>Similarity: 0.8100\<newline>\<newline>ID: T1078\<newline>Name: Valid Accounts\<newline>Tactic: defense-evasion, persistence\<newline>Similarity: 0.5000\<newline>\<newline>ID: T1048\<newline>Name: Exfiltration Over Alternative Protocol\<newline>Tactic: exfiltration\<newline>Similarity: 0.3400'']"
    unfolding example_run by simp
  from result_text_format [OF completed_example] have
    "\<exists>ms :: top_match list. puts (fst (find_similar_techniques env_example ''phishing email with malicious attachment'' callback_example)) =
           [join ''\<newline>\<newline>''
                (map (\<lambda>m. ''ID: '' @ str_of (id' m) @ ''\<newline>Name: '' @ str_of (name m) @
                          ''\<newline>Tactic: '' @ tactic_str m @
                          ''\<newline>Similarity: '' @ format_4f (similarity m)) ms)] \<and>
         list_all (\<lambda>m. fixed_point_4 (format_4f (similarity m))) ms"
    by (elim exE conjE) (intro exI conjI; assumption)
  with completed_example v show ?thesis
    by (intro conjI)
qed

section \<open>Two submissions in quick succession\<close>

lemma run_append: "run (xs @ ys) g = run ys (run xs g)"
  by (induction xs arbitrary: g) auto

lemma check_queue_keeps:
  "result_text (check_queue g) @ concat (result_queue (check_queue g)) =
   result_text g @ concat (result_queue g)"
  "threads (check_queue g) = threads g"
  by (simp_all add: check_queue_def split: list.splits)

lemma worker_effect_keeps:
  "result_text (worker_effect ev g) @ concat (result_queue (worker_effect ev g)) =
   result_text g @ concat (result_queue g) @ concat (puts [ev])"
  "threads (worker_effect ev g) = threads g"
  by (cases ev; simp add: update_progress_def)+

lemma worker_puts_Worker: "worker_puts (Worker ev # as) = puts [ev] @ worker_puts as"
  by (cases ev) simp_all

lemma run_no_submit:
  "Submit \<notin> set acts \<Longrightarrow>
   result_text (run acts g) @ concat (result_queue (run acts g)) =
     result_text g @ concat (result_queue g) @ concat (worker_puts acts) \<and>
   threads (run acts g) = threads g"
proof (induction acts arbitrary: g)
  case Nil
  then show ?case by simp
next
  case (Cons a acts)
  then have ih: "result_text (run acts (step a g)) @ concat (result_queue (run acts (step a g))) =
     result_text (step a g) @ concat (result_queue (step a g)) @ concat (worker_puts acts) \<and>
     threads (run acts (step a g)) = threads (step a g)"
    by simp
  from Cons.prems have ns: "a \<noteq> Submit" by auto
  show ?case
  proof (cases a)
    case (Type s)
    with ih show ?thesis by simp
  next
    case Submit
    with ns show ?thesis by simp
  next
    case CheckQueue
    with ih show ?thesis by (simp add: check_queue_keeps)
  next
    case (Worker ev)
    with ih show ?thesis
      by (simp add: worker_effect_keeps worker_puts_Worker del: worker_puts.simps puts.simps)
  qed
qed

text \<open>
  C9, as amended: when two non-blank sentences are submitted one after the other, and
  then, with no further submission, the workers put the results \<open>r1\<close> and \<open>r2\<close> in
  this order of arrival and the timer has emptied the queue, the display holds \<open>r1\<close>
  followed directly by \<open>r2\<close>: each text whole, in arrival order, with nothing between
  them, and a thread was started for each sentence.
\<close>

theorem two_submissions_appended:
  assumes s1: "strip s1 \<noteq> []" and s2: "strip s2 \<noteq> []"
    and acts: "Submit \<notin> set acts"
    and arrive: "worker_puts acts = [r1, r2]"
    and empty: "result_queue g = []"
    and drained: "result_queue (run ([Type s1, Submit, Type s2, Submit] @ acts) g) = []"
  shows "result_text (run ([Type s1, Submit, Type s2, Submit] @ acts) g) = r1 @ r2 \<and>
         threads (run ([Type s1, Submit, Type s2, Submit] @ acts) g) = threads g @ [s1, s2]"
proof -
  define g' where "g' = run [Type s1, Submit, Type s2, Submit] g"
  have g': "result_text g' = []" "result_queue g' = []" "threads g' = threads g @ [s1, s2]"
    using s1 s2 empty by (simp_all add: g'_def on_submit_def)
  have fin: "run ([Type s1, Submit, Type s2, Submit] @ acts) g = run acts g'"
    unfolding g'_def by (rule run_append)
  from run_no_submit [OF acts, of g'] arrive g' drained
  show ?thesis
    unfolding fin by simp
qed

lemma workers_example_eq:
  "workers_example =
     [Worker (Encode ''phishing email with malicious attachment''), Worker (Progress 20),
      Worker GetTechniques, Worker (Progress 50),
      Worker (EncodeBatch [Val ''Adversaries may steal data by exfiltrating it'',
                    Val ''Adversaries may send phishing messages'',
                    Val ''Adversaries may abuse command interpreters'',
                    Val ''Adversaries may obtain and abuse credentials'']),
      Worker (Put ''ID: T1566\<newline>Name: Phishing\<newline>Tactic: initial-access\<newline>Similarity: 0.8100\<newline>\<newline>ID: T1078\<newline>Name: Valid Accounts\<newline>Tactic: defense-evasion, persistence\<newline>Similarity: 0.5000\<newline>\<newline>ID: T1048\<newline>Name: Exfiltration Over Alternative Protocol\<newline>Tactic: exfiltration\<newline>Similarity: 0.3400''),
      Worker (Progress 100),
      Worker (Encode ''Adversaries may send phishing messages''), Worker (Progress 20),
      Worker GetTechniques, Worker (Progress 50),
      Worker (EncodeBatch [Val ''Adversaries may steal data by exfiltrating it'',
                    Val ''Adversaries may send phishing messages'',
                    Val ''Adversaries may abuse command interpreters'',
                    Val ''Adversaries may obtain and abuse credentials'']),
      Worker (Put ''ID: T1566\<newline>Name: Phishing\<newline>Tactic: initial-access\<newline>Similarity: 1.0000\<newline>\<newline>ID: T1078\<newline>Name: Valid Accounts\<newline>Tactic: defense-evasion, persistence\<newline>Similarity: 0.5000\<newline>\<newline>ID: T1048\<newline>Name: Exfiltration Over Alternative Protocol\<newline>Tactic: exfiltration\<newline>Similarity: 0.3400''),
      Worker (Progress 100), CheckQueue, CheckQueue]"
  unfolding workers_example_def example_run example_run_b by simp

lemma strip_example:
  "strip ''phishing email with malicious attachment'' \<noteq> []"
  "strip ''Adversaries may send phishing messages'' \<noteq> []"
  by (simp_all add: strip_def isspace_def)

lemma run_schedule_example:
  "run schedule_example gui_example =
     \<lparr> entry_sentence = ''Adversaries may send phishing messages'', progress_bar = 100,
       result_text = ''ID: T1566\<newline>Name: Phishing\<newline>Tactic: initial-access\<newline>Similarity: 0.8100\<newline>\<newline>ID: T1078\<newline>Name: Valid Accounts\<newline>Tactic: defense-evasion, persistence\<newline>Similarity: 0.5000\<newline>\<newline>ID: T1048\<newline>Name: Exfiltration Over Alternative Protocol\<newline>Tactic: exfiltration\<newline>Similarity: 0.3400ID: T1566\<newline>Name: Phishing\<newline>Tactic: initial-access\<newline>Similarity: 1.0000\<newline>\<newline>ID: T1078\<newline>Name: Valid Accounts\<newline>Tactic: defense-evasion, persistence\<newline>Similarity: 0.5000\<newline>\<newline>ID: T1048\<newline>Name: Exfiltration Over Alternative Protocol\<newline>Tactic: exfiltration\<newline>Similarity: 0.3400'',
       result_queue = [],
       threads = [''phishing email with malicious attachment'', ''Adversaries may send phishing messages''],
       showinfo = [], showerror = [] \<rparr>"
  unfolding schedule_example_def workers_example_eq
  using strip_example
  by (simp add: gui_example_def on_submit_def Let_def check_queue_def update_progress_def)

theorem two_submissions_appended_witness:
  "strip ''phishing email with malicious attachment'' \<noteq> [] \<and>
   strip ''Adversaries may send phishing messages'' \<noteq> [] \<and>
   Submit \<notin> set workers_example \<and>
   worker_puts workers_example =
     [''ID: T1566\<newline>Name: Phishing\<newline>Tactic: initial-access\<newline>Similarity: 0.8100\<newline>\<newline>ID: T1078\<newline>Name: Valid Accounts\<newline>Tactic: defense-evasion, persistence\<newline>Similarity: 0.5000\<newline>\<newline>ID: T1048\<newline>Name: Exfiltration Over Alternative Protocol\<newline>Tactic: exfiltration\<newline>Similarity: 0.3400'',
      ''ID: T1566\<newline>Name: Phishing\<newline>Tactic: initial-access\<newline>Similarity: 1.0000\<newline>\<newline>ID: T1078\<newline>Name: Valid Accounts\<newline>Tactic: defense-evasion, persistence\<newline>Similarity: 0.5000\<newline>\<newline>ID: T1048\<newline>Name: Exfiltration Over Alternative Protocol\<newline>Tactic: exfiltration\<newline>Similarity: 0.3400''] \<and>
   result_queue gui_example = [] \<and>
   result_queue (run ([Type ''phishing email with malicious attachment'', Submit,
                       Type ''Adversaries may send phishing messages'', Submit] @ workers_example) gui_example) = [] \<and>
   result_text (run ([Type ''phishing email with malicious attachment'', Submit,
                      Type ''Adversaries may send phishing messages'', Submit] @ workers_example) gui_example) =
     ''ID: T1566\<newline>Name: Phishing\<newline>Tactic: initial-access\<newline>Similarity: 0.8100\<newline>\<newline>ID: T1078\<newline>Name: Valid Accounts\<newline>Tactic: defense-evasion, persistence\<newline>Similarity: 0.5000\<newline>\<newline>ID: T1048\<newline>Name: Exfiltration Over Alternative Protocol\<newline>Tactic: exfiltration\<newline>Similarity: 0.3400'' @
     ''ID: T1566\<newline>Name: Phishing\<newline>Tactic: initial-access\<newline>Similarity: 1.0000\<newline>\<newline>ID: T1078\<newline>Name: Valid Accounts\<newline>Tactic: defense-evasion, persistence\<newline>Similarity: 0.5000\<newline>\<newline>ID: T1048\<newline>Name: Exfiltration Over Alternative Protocol\<newline>Tactic: exfiltration\<newline>Similarity: 0.3400'' \<and>
   threads (run ([Type ''phishing email with malicious attachment'', Submit,
                  Type ''Adversaries may send phishing messages'', Submit] @ workers_example) gui_example) =
     threads gui_example @ [''phishing email with malicious attachment'', ''Adversaries may send phishing messages'']"
proof -
  have ns: "Submit \<notin> set workers_example"
    unfolding workers_example_eq by simp
  have wp: "worker_puts workers_example =
     [''ID: T1566\<newline>Name: Phishing\<newline>Tactic: initial-access\<newline>Similarity: 0.8100\<newline>\<newline>ID: T1078\<newline>Name: Valid Accounts\<newline>Tactic: defense-evasion, persistence\<newline>Similarity: 0.5000\<newline>\<newline>ID: T1048\<newline>Name: Exfiltration Over Alternative Protocol\<newline>Tactic: exfiltration\<newline>Similarity: 0.3400'',
      ''ID: T1566\<newline>Name: Phishing\<newline>Tactic: initial-access\<newline>Similarity: 1.0000\<newline>\<newline>ID: T1078\<newline>Name: Valid Accounts\<newline>Tactic: defense-evasion, persistence\<newline>Similarity: 0.5000\<newline>\<newline>ID: T1048\<newline>Name: Exfiltration Over Alternative Protocol\<newline>Tactic: exfiltration\<newline>Similarity: 0.3400'']"
    unfolding workers_example_eq by simp
  have e: "result_queue gui_example = []"
    by (simp add: gui_example_def)
  have d: "result_queue (run ([Type ''phishing email with malicious attachment'', Submit,
                       Type ''Adversaries may send phishing messages'', Submit] @ workers_example) gui_example) = []"
    using run_schedule_example unfolding schedule_example_def by simp
  note r = two_submissions_appended [OF strip_example ns wp e d]
  show ?thesis
    by (intro conjI strip_example ns wp e d conjunct1 [OF r] conjunct2 [OF r])
qed

text \<open>
  C9, as stated, fails on the example schedule: the display is the first result followed
  directly by the second, not the two separated by a blank line.
\<close>

theorem two_submissions_no_blank_line:
  "result_text (run schedule_example gui_example) =
     ''ID: T1566\<newline>Name: Phishing\<newline>Tactic: initial-access\<newline>Similarity: 0.8100\<newline>\<newline>ID: T1078\<newline>Name: Valid Accounts\<newline>Tactic: defense-evasion, persistence\<newline>Similarity: 0.5000\<newline>\<newline>ID: T1048\<newline>Name: Exfiltration Over Alternative Protocol\<newline>Tactic: exfiltration\<newline>Similarity: 0.3400'' @
     ''ID: T1566\<newline>Name: Phishing\<newline>Tactic: initial-access\<newline>Similarity: 1.0000\<newline>\<newline>ID: T1078\<newline>Name: Valid Accounts\<newline>Tactic: defense-evasion, persistence\<newline>Similarity: 0.5000\<newline>\<newline>ID: T1048\<newline>Name: Exfiltration Over Alternative Protocol\<newline>Tactic: exfiltration\<newline>Similarity: 0.3400'' \<and>
   result_text (run schedule_example gui_example) \<noteq>
     ''ID: T1566\<newline>Name: Phishing\<newline>Tactic: initial-access\<newline>Similarity: 0.8100\<newline>\<newline>ID: T1078\<newline>Name: Valid Accounts\<newline>Tactic: defense-evasion, persistence\<newline>Similarity: 0.5000\<newline>\<newline>ID: T1048\<newline>Name: Exfiltration Over Alternative Protocol\<newline>Tactic: exfiltration\<newline>Similarity: 0.3400'' @
     ''\<newline>\<newline>'' @
     ''ID: T1566\<newline>Name: Phishing\<newline>Tactic: initial-access\<newline>Similarity: 1.0000\<newline>\<newline>ID: T1078\<newline>Name: Valid Accounts\<newline>Tactic: defense-evasion, persistence\<newline>Similarity: 0.5000\<newline>\<newline>ID: T1048\<newline>Name: Exfiltration Over Alternative Protocol\<newline>Tactic: exfiltration\<newline>Similarity: 0.3400''"
  unfolding run_schedule_example by simp

section \<open>The similarity of a vector of norm zero\<close>

lemma dot_self_nonneg: "0 \<le> dot a a"
  unfolding dot_def by (induction a) simp_all

lemma vector_norm_zero_iff: "vector_norm a = 0 \<longleftrightarrow> list_all (\<lambda>x. x = 0) a"
proof -
  have "dot a a = 0 \<longleftrightarrow> list_all (\<lambda>x. x = 0) a"
  proof (induction a)
    case Nil
    show ?case by (simp add: dot_def)
  next
    case (Cons x a)
    have s: "dot (x # a) (x # a) = x * x + dot a a"
      by (simp add: dot_def)
    from dot_self_nonneg [of a] zero_le_square [of x]
    have "x * x + dot a a = 0 \<longleftrightarrow> x = 0 \<and> dot a a = 0"
      by (auto simp: add_nonneg_eq_0_iff)
    with Cons s show ?case by simp
  qed
  then show ?thesis
    by (simp add: vector_norm_def)
qed

lemma cosine_similarity_returns: "\<exists>s. cosine_similarity a b = Inr s"
  by (simp add: cosine_similarity_def divide_checked_def)

text \<open>
  C3: when the query vector or the candidate vector has norm zero, the similarity of
  the pair is 0.0 and no division fault is raised.
\<close>

theorem cosine_similarity_zero_norm:
  assumes "vector_norm a = 0 \<or> vector_norm b = 0"
  shows "cosine_similarity a b = Inr 0 \<and> cosine_similarity b a = Inr 0"
  using assms by (auto simp: cosine_similarity_def)

theorem cosine_similarity_zero_norm_witness:
  "vector_norm [0, 0, 0] = 0 \<and>
   cosine_similarity [0, 0, 0] [3, 4, 12] = Inr 0 \<and>
   cosine_similarity [3, 4, 12] [0, 0, 0] = Inr 0 \<and>
   cosine_similarity [3, 4] [3, 4] = Inr 1"
proof -
  have z: "vector_norm [0, 0, 0] = 0"
    by (simp add: vector_norm_def dot_def)
  then have h: "vector_norm [0, 0, 0] = 0 \<or> vector_norm [3, 4, 12] = 0"
    by (rule disjI1)
  note r = cosine_similarity_zero_norm [OF h]
  have n: "vector_norm [3, 4] = 5"
    by (simp add: vector_norm_def dot_def real_sqrt_unique)
  have o: "cosine_similarity [3, 4] [3, 4] = Inr 1"
    by (simp add: cosine_similarity_def n divide_checked_def) (simp add: dot_def)
  show ?thesis
    by (intro conjI z conjunct1 [OF r] conjunct2 [OF r] o)
qed

end
